theory Spec2Isabelle
  imports Main
begin

section \<open>The command forwarder \<open>demucs_wrapper.py\<close>\<close>

text \<open>
  The whole program is a script of six statements:
  \<^verbatim>\<open>
  import torchaudio
  torchaudio.set_audio_backend("soundfile")  # or "sox_io"

  import sys
  import subprocess

  # Forward command-line args to Demucs
  cmd = ["demucs"] + sys.argv[1:]
  subprocess.run(cmd, check=True)
  \<close>
  Everything it does is a call into its surroundings: the module loader, the torchaudio
  library, the operating system. The surroundings are a parameter of the model (a record
  \<open>env\<close>); the script is a function from the surroundings and the world before the run to
  the way the run ends and the world after it.
\<close>

subsection \<open>Exceptions and results\<close>

text \<open>
  What \<open>Popen\<close> raises when the child cannot be started is an \<open>OSError\<close>; its subclasses
  are chosen from the errno.
\<close>

datatype os_error = FileNotFoundError | PermissionError | OtherOSError

datatype py_exception =
    ModuleNotFoundError string
  | AttributeError string
  | RuntimeError string
  | OSError os_error
  | CalledProcessError int "string list"

text \<open>
  A statement returns a value, raises, or never comes back (the blocking wait on a child
  that does not exit).
\<close>

datatype 'a result = Returned 'a | Raised py_exception | Blocked

subsection \<open>The surroundings\<close>

text \<open>
  What the operating system does with an argument vector handed to it: the executable
  cannot be started, the child runs and exits with a return code (negative when a signal
  killed it, as \<open>Popen.returncode\<close> has it), or the child never exits.
\<close>

datatype child = CannotStart os_error | Exits int | NeverExits

record env =
  sys_argv :: "string list"
  load_module :: "string \<Rightarrow> py_exception option"
  select_backend :: "string \<Rightarrow> py_exception option"
  exec_child :: "string list \<Rightarrow> child"

text \<open>
  \<open>sys_argv\<close> is \<open>sys.argv\<close>: the script's own name, then the caller's arguments.
  \<open>load_module m\<close> is \<open>None\<close> when \<open>import m\<close> succeeds and the exception otherwise;
  \<open>select_backend b\<close> is the same for \<open>torchaudio.set_audio_backend(b)\<close>.
\<close>

subsection \<open>The world the script acts on\<close>

datatype event = Import string | SetAudioBackend string | Popen "string list"

record world =
  audio_backend :: "string option"
  trace :: "event list"

text \<open>
  \<open>audio_backend\<close> is torchaudio's process-wide backend setting; \<open>trace\<close> lists the calls
  the process has made into its surroundings, oldest first. Whatever else can be observed
  is the \<open>more\<close> part of the record.
\<close>

subsection \<open>The statements\<close>

definition py_import :: "env \<Rightarrow> string \<Rightarrow> 'a world_scheme \<Rightarrow> unit result \<times> 'a world_scheme" where
  "py_import e m w =
     (let w' = w\<lparr>trace := trace w @ [Import m]\<rparr>
      in case load_module e m of
           None \<Rightarrow> (Returned (), w')
         | Some x \<Rightarrow> (Raised x, w'))"

definition set_audio_backend :: "env \<Rightarrow> string \<Rightarrow> 'a world_scheme \<Rightarrow> unit result \<times> 'a world_scheme" where
  "set_audio_backend e b w =
     (let w' = w\<lparr>trace := trace w @ [SetAudioBackend b]\<rparr>
      in case select_backend e b of
           None \<Rightarrow> (Returned (), w'\<lparr>audio_backend := Some b\<rparr>)
         | Some x \<Rightarrow> (Raised x, w'))"

text \<open>
  \<open>subprocess.run(args, shell=..., check=...)\<close> of the standard library, on POSIX, for a
  list \<open>args\<close>: with \<open>shell\<close> the list is handed to \<open>/bin/sh -c\<close>, without it the list is the
  child's argument vector as it is. The call starts the child, waits for it, and with
  \<open>check\<close> raises \<open>CalledProcessError(returncode, args)\<close> when the return code is not zero.
\<close>

definition subprocess_run ::
  "env \<Rightarrow> string list \<Rightarrow> bool \<Rightarrow> bool \<Rightarrow> 'a world_scheme \<Rightarrow> int result \<times> 'a world_scheme" where
  "subprocess_run e args shell check w =
     (let av = (if shell then [''/bin/sh'', ''-c''] @ args else args);
          w' = w\<lparr>trace := trace w @ [Popen av]\<rparr>
      in case exec_child e av of
           CannotStart oe \<Rightarrow> (Raised (OSError oe), w')
         | NeverExits \<Rightarrow> (Blocked, w')
         | Exits rc \<Rightarrow>
             if check \<and> rc \<noteq> 0 then (Raised (CalledProcessError rc args), w')
             else (Returned rc, w'))"

text \<open>Sequencing: the next statement runs only when the one before it returned.\<close>

fun and_then :: "'a result \<times> 's \<Rightarrow> ('a \<Rightarrow> 's \<Rightarrow> 'b result \<times> 's) \<Rightarrow> 'b result \<times> 's" where
  "and_then (Returned v, s) f = f v s"
| "and_then (Raised x, s) f = (Raised x, s)"
| "and_then (Blocked, s) f = (Blocked, s)"

subsection \<open>The script\<close>

text \<open>
  \<open>cmd = ["demucs"] + sys.argv[1:]\<close>; the slice of a list shorter than 1 is empty. The
  script calls \<open>subprocess.run(cmd, check=True)\<close>, which leaves \<open>shell\<close> at its default,
  \<open>False\<close>. No statement is inside a \<open>try\<close>, so an exception ends the script where it
  is raised.
\<close>

definition cmd :: "string list \<Rightarrow> string list" where
  "cmd av = [''demucs''] @ drop 1 av"

definition main :: "env \<Rightarrow> 'a world_scheme \<Rightarrow> unit result \<times> 'a world_scheme" where
  "main e w0 =
     and_then (py_import e ''torchaudio'' w0) (\<lambda>_ w1.
     and_then (set_audio_backend e ''soundfile'' w1) (\<lambda>_ w2.
     and_then (py_import e ''sys'' w2) (\<lambda>_ w3.
     and_then (py_import e ''subprocess'' w3) (\<lambda>_ w4.
     and_then (subprocess_run e (cmd (sys_argv e)) False True w4) (\<lambda>_ w5.
     (Returned (), w5))))))"

text \<open>
  The interpreter's exit status: 0 when the script runs to its end, 1 when an exception
  is not caught (none of the exceptions above is \<open>SystemExit\<close>); no status while the
  process is blocked.
\<close>

fun exit_status :: "unit result \<Rightarrow> int option" where
  "exit_status (Returned _) = Some 0"
| "exit_status (Raised _) = Some 1"
| "exit_status Blocked = None"

subsection \<open>Observations on a run\<close>

text \<open>The calls a run adds to the trace, and the argument vectors it spawned.\<close>

definition new_events :: "env \<Rightarrow> 'a world_scheme \<Rightarrow> event list" where
  "new_events e w = drop (length (trace w)) (trace (snd (main e w)))"

fun spawns :: "event list \<Rightarrow> string list list" where
  "spawns [] = []"
| "spawns (Popen av # evs) = av # spawns evs"
| "spawns (_ # evs) = spawns evs"


text \<open>The calls of the script in the order of its statements.\<close>

definition script_calls :: "env \<Rightarrow> event list" where
  "script_calls e =
     [Import ''torchaudio'', SetAudioBackend ''soundfile'', Import ''sys'',
      Import ''subprocess'', Popen (cmd (sys_argv e))]"

text \<open>
  The steps before the spawn all succeed: the three imports and the backend call.
\<close>

definition setup_ok :: "env \<Rightarrow> bool" where
  "setup_ok e =
     (load_module e ''torchaudio'' = None \<and> select_backend e ''soundfile'' = None \<and>
      load_module e ''sys'' = None \<and> load_module e ''subprocess'' = None)"


subsection \<open>Concrete surroundings\<close>

text \<open>
  A machine on which everything is installed and the tool behaves as \<open>ch\<close> whatever its
  arguments; one without torchaudio; one whose torchaudio rejects the backend.
\<close>

definition env_with :: "string list \<Rightarrow> child \<Rightarrow> env" where
  "env_with args ch =
     \<lparr>sys_argv = ''demucs_wrapper.py'' # args,
      load_module = (\<lambda>_. None),
      select_backend = (\<lambda>_. None),
      exec_child = (\<lambda>_. ch)\<rparr>"


definition env_no_backend :: "string list \<Rightarrow> child \<Rightarrow> env" where
  "env_no_backend args ch =
     (env_with args ch)\<lparr>select_backend := (\<lambda>b. Some (RuntimeError b))\<rparr>"

definition world0 :: world where
  "world0 = \<lparr>audio_backend = None, trace = []\<rparr>"

section \<open>How a run goes\<close>

lemma main_torchaudio_import_raises:
  assumes "load_module e ''torchaudio'' = Some x"
  shows "main e w = (Raised x, w\<lparr>trace := trace w @ [Import ''torchaudio'']\<rparr>)"
  using assms by (simp add: main_def py_import_def)

lemma main_backend_raises:
  assumes "load_module e ''torchaudio'' = None" and "select_backend e ''soundfile'' = Some x"
  shows "main e w =
    (Raised x, w\<lparr>trace := trace w @ [Import ''torchaudio'', SetAudioBackend ''soundfile'']\<rparr>)"
  using assms by (simp add: main_def py_import_def set_audio_backend_def)

lemma main_sys_import_raises:
  assumes "load_module e ''torchaudio'' = None" and "select_backend e ''soundfile'' = None"
    and "load_module e ''sys'' = Some x"
  shows "main e w =
    (Raised x, w\<lparr>audio_backend := Some ''soundfile'',
                 trace := trace w @ [Import ''torchaudio'', SetAudioBackend ''soundfile'',
                                     Import ''sys'']\<rparr>)"
  using assms by (simp add: main_def py_import_def set_audio_backend_def)

lemma main_subprocess_import_raises:
  assumes "load_module e ''torchaudio'' = None" and "select_backend e ''soundfile'' = None"
    and "load_module e ''sys'' = None" and "load_module e ''subprocess'' = Some x"
  shows "main e w =
    (Raised x, w\<lparr>audio_backend := Some ''soundfile'',
                 trace := trace w @ [Import ''torchaudio'', SetAudioBackend ''soundfile'',
                                     Import ''sys'', Import ''subprocess'']\<rparr>)"
  using assms by (simp add: main_def py_import_def set_audio_backend_def)

text \<open>When the setup succeeds the run reaches the spawn, and the child decides the rest.\<close>

lemma main_setup_ok:
  assumes "setup_ok e"
  shows "main e w =
    (case exec_child e (cmd (sys_argv e)) of
       CannotStart oe \<Rightarrow> Raised (OSError oe)
     | NeverExits \<Rightarrow> Blocked
     | Exits rc \<Rightarrow>
         if rc \<noteq> 0 then Raised (CalledProcessError rc (cmd (sys_argv e))) else Returned (),
     w\<lparr>audio_backend := Some ''soundfile'', trace := trace w @ script_calls e\<rparr>)"
  using assms
  by (simp add: main_def py_import_def set_audio_backend_def subprocess_run_def setup_ok_def
      script_calls_def Let_def split: child.splits)

lemma new_events_setup_ok:
  assumes "setup_ok e"
  shows "new_events e w = script_calls e"
  by (simp add: new_events_def main_setup_ok [OF assms])

lemma fst_main_setup_ok:
  assumes "setup_ok e"
  shows "fst (main e w) =
    (case exec_child e (cmd (sys_argv e)) of
       CannotStart oe \<Rightarrow> Raised (OSError oe)
     | NeverExits \<Rightarrow> Blocked
     | Exits rc \<Rightarrow>
         if rc \<noteq> 0 then Raised (CalledProcessError rc (cmd (sys_argv e))) else Returned ())"
  by (simp add: main_setup_ok [OF assms])

text \<open>The five ways a run can go, by the first statement that raises.\<close>

lemma run_cases [case_names torchaudio backend sys subprocess ok]:
  obtains x where "load_module e ''torchaudio'' = Some x"
  | x where "load_module e ''torchaudio'' = None" and "select_backend e ''soundfile'' = Some x"
  | x where "load_module e ''torchaudio'' = None" and "select_backend e ''soundfile'' = None"
      and "load_module e ''sys'' = Some x"
  | x where "load_module e ''torchaudio'' = None" and "select_backend e ''soundfile'' = None"
      and "load_module e ''sys'' = None" and "load_module e ''subprocess'' = Some x"
  | "setup_ok e"
  unfolding setup_ok_def by (meson option.exhaust)

text \<open>
  Whatever the surroundings do, the calls of a run are an initial piece of the script's
  calls: the run stops at the first statement that raises.
\<close>

lemma new_events_eq:
  "new_events e w =
     (if load_module e ''torchaudio'' \<noteq> None then take 1 (script_calls e)
      else if select_backend e ''soundfile'' \<noteq> None then take 2 (script_calls e)
      else if load_module e ''sys'' \<noteq> None then take 3 (script_calls e)
      else if load_module e ''subprocess'' \<noteq> None then take 4 (script_calls e)
      else script_calls e)"
proof (cases e rule: run_cases)
  case (torchaudio x)
  then show ?thesis
    by (simp add: new_events_def main_torchaudio_import_raises script_calls_def)
next
  case (backend x)
  then show ?thesis
    by (simp add: new_events_def main_backend_raises script_calls_def)
next
  case (sys x)
  then show ?thesis
    by (simp add: new_events_def main_sys_import_raises script_calls_def)
next
  case (subprocess x)
  then show ?thesis
    by (simp add: new_events_def main_subprocess_import_raises script_calls_def)
next
  case ok
  then show ?thesis
    by (simp add: new_events_setup_ok setup_ok_def)
qed

lemma new_events_prefix: "\<exists>n. new_events e w = take n (script_calls e)"
proof -
  have "script_calls e = take (length (script_calls e)) (script_calls e)"
    by simp
  then show ?thesis
    unfolding new_events_eq [of e w] by (metis (full_types))
qed

lemma spawns_new_events:
  "spawns (new_events e w) = (if setup_ok e then [cmd (sys_argv e)] else [])"
  unfolding new_events_eq [of e w] by (auto simp: script_calls_def setup_ok_def)


lemma Popen_in_new_events:
  assumes "Popen av \<in> set (new_events e w)"
  shows "setup_ok e \<and> av = cmd (sys_argv e)"
  using assms unfolding new_events_eq [of e w]
  by (auto simp: script_calls_def setup_ok_def split: if_splits)

lemma script_calls_backend_index:
  assumes "i < length (script_calls e)" and "script_calls e ! i = SetAudioBackend b"
  shows "i = 1"
  using assms by (auto simp: script_calls_def nth_Cons' split: if_splits)

lemma script_calls_spawn_index:
  assumes "j < length (script_calls e)" and "script_calls e ! j = Popen av"
  shows "j = 4"
  using assms by (auto simp: script_calls_def nth_Cons' split: if_splits)


lemma setup_ok_env_with [simp]: "setup_ok (env_with args ch)"
  by (simp add: setup_ok_def env_with_def)

lemma sys_argv_env_with [simp]: "sys_argv (env_with args ch) = ''demucs_wrapper.py'' # args"
  by (simp add: env_with_def)

lemma exec_child_env_with [simp]: "exec_child (env_with args ch) av = ch"
  by (simp add: env_with_def)

lemma setup_ok_sys_argv_update [simp]: "setup_ok (e\<lparr>sys_argv := av\<rparr>) = setup_ok e"
  by (simp add: setup_ok_def)

section \<open>The claims\<close>

subsection \<open>The child's argument list\<close>

text \<open>
  C1. For every argument sequence \<open>A\<close> given on the command line (so \<open>sys.argv\<close> is the
  script's name followed by \<open>A\<close>), the child's argument list is the program name
  \<open>demucs\<close> followed by \<open>A\<close> in the same order, nothing added, removed or changed. For
  \<open>--two-stems=vocals song.mp3\<close> the child command is
  \<open>demucs --two-stems=vocals song.mp3\<close>; for no arguments it is \<open>demucs\<close> alone. The one
  spawn of a run (there is none when a step before it raises) has this argument list.
\<close>

theorem child_command_is_demucs_then_arguments:
  "cmd (script # A) = ''demucs'' # A \<and>
   cmd [script, ''--two-stems=vocals'', ''song.mp3''] =
     [''demucs'', ''--two-stems=vocals'', ''song.mp3''] \<and>
   cmd [script] = [''demucs''] \<and>
   spawns (new_events (e\<lparr>sys_argv := script # A\<rparr>) w) =
     (if setup_ok e then [''demucs'' # A] else [])"
  by (simp add: cmd_def spawns_new_events)

subsection \<open>Exit status\<close>

text \<open>
  C2, as stated: whenever the external program ends with exit status \<open>N\<close>, the forwarder's
  own exit status is \<open>N\<close>. Not so for a child that exits with 2: \<open>check=True\<close> turns the
  status into an uncaught \<open>CalledProcessError\<close>, and the interpreter exits with 1.
\<close>

theorem exit_status_is_not_child_status_counterexample:
  "setup_ok (env_with [''song.mp3''] (Exits 2)) \<and>
   exec_child (env_with [''song.mp3''] (Exits 2))
     (cmd (sys_argv (env_with [''song.mp3''] (Exits 2)))) = Exits 2 \<and>
   fst (main (env_with [''song.mp3''] (Exits 2)) world0) =
     Raised (CalledProcessError 2 [''demucs'', ''song.mp3'']) \<and>
   exit_status (fst (main (env_with [''song.mp3''] (Exits 2)) world0)) = Some 1 \<and>
   exit_status (fst (main (env_with [''song.mp3''] (Exits 2)) world0)) \<noteq> Some 2"
  by (simp add: fst_main_setup_ok cmd_def)

text \<open>
  C2, amended: whenever the setup succeeds and the external program ends with exit status
  \<open>N\<close>, the forwarder exits with 0 if \<open>N\<close> is 0 and with 1 otherwise (the status is \<open>N\<close>
  itself only for \<open>N\<close> 0 or 1).
\<close>

theorem exit_status_is_zero_or_one:
  assumes "setup_ok e" and "exec_child e (cmd (sys_argv e)) = Exits N"
  shows "exit_status (fst (main e w)) = Some (if N = 0 then 0 else 1)"
  using assms by (simp add: fst_main_setup_ok)

theorem exit_status_is_zero_or_one_witness:
  "setup_ok (env_with [''song.mp3''] (Exits 137)) \<and>
   exec_child (env_with [''song.mp3''] (Exits 137))
     (cmd (sys_argv (env_with [''song.mp3''] (Exits 137)))) = Exits 137 \<and>
   exit_status (fst (main (env_with [''song.mp3''] (Exits 137)) world0)) = Some 1"
  using exit_status_is_zero_or_one
    [of "env_with [''song.mp3''] (Exits 137)" 137 world0]
  by simp

text \<open>
  C3. Whenever the external tool exits with a code \<open>N\<close> other than 0, the forwarder exits
  with a code other than 0: the run ends in the uncaught \<open>CalledProcessError\<close> that carries
  \<open>N\<close> and the command, and the exit status is 1.
\<close>

theorem nonzero_child_status_gives_nonzero_exit:
  assumes "setup_ok e" and "exec_child e (cmd (sys_argv e)) = Exits N" and "N \<noteq> 0"
  shows "fst (main e w) = Raised (CalledProcessError N (cmd (sys_argv e))) \<and>
         exit_status (fst (main e w)) = Some 1 \<and>
         exit_status (fst (main e w)) \<noteq> Some 0"
  using assms by (simp add: fst_main_setup_ok)

theorem nonzero_child_status_gives_nonzero_exit_witness:
  "setup_ok (env_with [''--two-stems=vocals'', ''song.mp3''] (Exits (- 9))) \<and>
   exec_child (env_with [''--two-stems=vocals'', ''song.mp3''] (Exits (- 9)))
     (cmd (sys_argv (env_with [''--two-stems=vocals'', ''song.mp3''] (Exits (- 9))))) =
     Exits (- 9) \<and>
   (- 9 :: int) \<noteq> 0 \<and>
   fst (main (env_with [''--two-stems=vocals'', ''song.mp3''] (Exits (- 9))) world0) =
     Raised (CalledProcessError (- 9) [''demucs'', ''--two-stems=vocals'', ''song.mp3'']) \<and>
   exit_status
     (fst (main (env_with [''--two-stems=vocals'', ''song.mp3''] (Exits (- 9))) world0)) =
     Some 1"
  using nonzero_child_status_gives_nonzero_exit
    [of "env_with [''--two-stems=vocals'', ''song.mp3''] (Exits (- 9))" "- 9" world0]
  by (simp add: cmd_def)

text \<open>
  C6. Whenever the external tool exits with code 0, the forwarder raises no error and
  exits with code 0.
\<close>

theorem zero_child_status_gives_zero_exit:
  assumes "setup_ok e" and "exec_child e (cmd (sys_argv e)) = Exits 0"
  shows "fst (main e w) = Returned () \<and> exit_status (fst (main e w)) = Some 0"
  using assms by (simp add: fst_main_setup_ok)

theorem zero_child_status_gives_zero_exit_witness:
  "setup_ok (env_with [''--two-stems=vocals'', ''song.mp3''] (Exits 0)) \<and>
   exec_child (env_with [''--two-stems=vocals'', ''song.mp3''] (Exits 0))
     (cmd (sys_argv (env_with [''--two-stems=vocals'', ''song.mp3''] (Exits 0)))) = Exits 0 \<and>
   fst (main (env_with [''--two-stems=vocals'', ''song.mp3''] (Exits 0)) world0) =
     Returned () \<and>
   exit_status
     (fst (main (env_with [''--two-stems=vocals'', ''song.mp3''] (Exits 0)) world0)) = Some 0"
  using zero_child_status_gives_zero_exit
    [of "env_with [''--two-stems=vocals'', ''song.mp3''] (Exits 0)" world0]
  by simp

subsection \<open>Errors\<close>






subsection \<open>Order of the steps and effects\<close>

text \<open>
  C7. In every execution the steps come in one fixed order: the backend configuration call
  (after the import of its library), then the argument list, which only the spawn uses,
  then the spawn with its wait. The calls of a run are an initial piece of the script's
  five calls, and a configuration call always stands before a spawn, never after it.
\<close>

theorem calls_in_script_order:
  "(\<exists>n. new_events e w =
      take n [Import ''torchaudio'', SetAudioBackend ''soundfile'', Import ''sys'',
              Import ''subprocess'', Popen (cmd (sys_argv e))]) \<and>
   (\<forall>i j b av.
      i < length (new_events e w) \<and> j < length (new_events e w) \<and>
      new_events e w ! i = SetAudioBackend b \<and> new_events e w ! j = Popen av \<longrightarrow> i < j)"
proof -
  obtain n where n: "new_events e w = take n (script_calls e)"
    using new_events_prefix by blast
  have order: "i < j"
    if "i < length (new_events e w)" and "j < length (new_events e w)"
      and "new_events e w ! i = SetAudioBackend b" and "new_events e w ! j = Popen av"
    for i j b av
  proof -
    from that n have "i < length (script_calls e)" and "script_calls e ! i = SetAudioBackend b"
      and "j < length (script_calls e)" and "script_calls e ! j = Popen av"
      by simp_all
    then have "i = 1" and "j = 4"
      by (auto dest: script_calls_backend_index script_calls_spawn_index)
    then show ?thesis by simp
  qed
  from n have "\<exists>n. new_events e w =
      take n [Import ''torchaudio'', SetAudioBackend ''soundfile'', Import ''sys'',
              Import ''subprocess'', Popen (cmd (sys_argv e))]"
    unfolding script_calls_def by blast
  with order show ?thesis by blast
qed

theorem calls_in_script_order_witness:
  "new_events (env_with [''song.mp3''] (Exits 0)) world0 =
     [Import ''torchaudio'', SetAudioBackend ''soundfile'', Import ''sys'',
      Import ''subprocess'', Popen [''demucs'', ''song.mp3'']] \<and>
   new_events (env_with [''song.mp3''] (Exits 0)) world0 ! 1 = SetAudioBackend ''soundfile'' \<and>
   new_events (env_with [''song.mp3''] (Exits 0)) world0 ! 4 = Popen [''demucs'', ''song.mp3''] \<and>
   (1::nat) < 4"
  using calls_in_script_order [of "env_with [''song.mp3''] (Exits 0)" world0]
  by (simp add: new_events_setup_ok script_calls_def cmd_def)



subsection \<open>No shell between the caller and the tool\<close>

text \<open>
  C9. The command is handed over as a list, with no shell: every spawn of a run started
  with the arguments \<open>A\<close> runs \<open>demucs\<close> itself, has one argument per argument of the
  caller, and its argument number \<open>i + 1\<close> is the caller's argument number \<open>i\<close>, character
  for character, whatever spaces, quotes or shell metacharacters it holds.
\<close>

theorem forwarded_arguments_reach_child_unchanged:
  assumes "Popen av \<in> set (new_events (e\<lparr>sys_argv := script # A\<rparr>) w)"
  shows "length av = Suc (length A) \<and> hd av = ''demucs'' \<and>
         (\<forall>i < length A. av ! Suc i = A ! i)"
proof -
  from Popen_in_new_events [OF assms] have "av = ''demucs'' # A"
    by (simp add: cmd_def)
  then show ?thesis by simp
qed

theorem forwarded_arguments_reach_child_unchanged_witness:
  "Popen [''demucs'', ''my song.mp3'', ''a; rm -rf $HOME'', ''$(id) | *'']
     \<in> set (new_events
               ((env_with [] (Exits 0))
                  \<lparr>sys_argv := [''demucs_wrapper.py'', ''my song.mp3'', ''a; rm -rf $HOME'',
                                ''$(id) | *'']\<rparr>) world0) \<and>
   length [''demucs'', ''my song.mp3'', ''a; rm -rf $HOME'', ''$(id) | *''] = Suc 3 \<and>
   [''demucs'', ''my song.mp3'', ''a; rm -rf $HOME'', ''$(id) | *''] ! Suc 1 =
     ''a; rm -rf $HOME''"
proof -
  have h: "Popen [''demucs'', ''my song.mp3'', ''a; rm -rf $HOME'', ''$(id) | *'']
     \<in> set (new_events
               ((env_with [] (Exits 0))
                  \<lparr>sys_argv := ''demucs_wrapper.py'' # [''my song.mp3'', ''a; rm -rf $HOME'',
                                ''$(id) | *'']\<rparr>) world0)"
    by (simp add: new_events_setup_ok script_calls_def cmd_def)
  from forwarded_arguments_reach_child_unchanged [OF h] h show ?thesis
    by simp
qed

subsection \<open>A failing configuration call\<close>

text \<open>
  C10. If the backend configuration call raises, the forwarder ends with that exception
  (exit status 1) right there: its calls are the torchaudio import and the configuration
  call, the backend setting is untouched, and no child process is spawned. So the
  configuration step has to succeed before anything is forwarded.
\<close>

theorem backend_failure_prevents_spawn:
  assumes "load_module e ''torchaudio'' = None" and "select_backend e ''soundfile'' = Some x"
  shows "fst (main e w) = Raised x \<and>
         new_events e w = [Import ''torchaudio'', SetAudioBackend ''soundfile''] \<and>
         spawns (new_events e w) = [] \<and>
         audio_backend (snd (main e w)) = audio_backend w \<and>
         exit_status (fst (main e w)) = Some 1"
  using assms by (simp add: new_events_def main_backend_raises)

theorem backend_failure_prevents_spawn_witness:
  "load_module (env_no_backend [''--two-stems=vocals'', ''song.mp3''] (Exits 0)) ''torchaudio'' =
     None \<and>
   select_backend (env_no_backend [''--two-stems=vocals'', ''song.mp3''] (Exits 0)) ''soundfile'' =
     Some (RuntimeError ''soundfile'') \<and>
   fst (main (env_no_backend [''--two-stems=vocals'', ''song.mp3''] (Exits 0)) world0) =
     Raised (RuntimeError ''soundfile'') \<and>
   spawns (new_events (env_no_backend [''--two-stems=vocals'', ''song.mp3''] (Exits 0)) world0) =
     []"
  using backend_failure_prevents_spawn
    [of "env_no_backend [''--two-stems=vocals'', ''song.mp3''] (Exits 0)"
        "RuntimeError ''soundfile''" world0]
  by (simp add: env_no_backend_def env_with_def)

end
